theory Spec2Isabelle
  imports Complex_Main "HOL-Library.Word"
begin

unbundle bit_operations_syntax

section \<open>The pair value type (include/my_stl/pair.hpp)\<close>

text \<open>
  \<^verbatim>\<open>template <typename T1, typename T2> class pair\<close> declares exactly two data
  members, \<^verbatim>\<open>first_type first; second_type second;\<close>. The element types are
  the type parameters of the record.
\<close>

record ('a, 'b) pair =
  first :: 'a
  second :: 'b

text \<open>
  \<^verbatim>\<open>std::pair<U1, U2>\<close>, the standard library's type the pair converts to and
  from. It is a type of its own, with the two members of the standard.
\<close>

datatype ('a, 'b) std_pair = Std_pair (std_first: 'a) (std_second: 'b)

subsection \<open>Constructors\<close>

text \<open>
  \<^verbatim>\<open>constexpr pair(const T1& x, const T2& y) : first(x), second(y) {}\<close>
\<close>

definition pair_ctor :: "'a \<Rightarrow> 'b \<Rightarrow> ('a, 'b) pair" where
  "pair_ctor x y = \<lparr>first = x, second = y\<rparr>"

text \<open>
  \<^verbatim>\<open>constexpr pair(const std::pair<U1, U2>& other)
    : first(other.first), second(other.second) {}\<close>
\<close>

definition pair_from_std :: "('a, 'b) std_pair \<Rightarrow> ('a, 'b) pair" where
  "pair_from_std other = \<lparr>first = std_first other, second = std_second other\<rparr>"

text \<open>
  \<^verbatim>\<open>constexpr operator std::pair<U1, U2>() const &
    { return std::pair<U1, U2>(first, second); }\<close>
\<close>

definition to_std_pair :: "('a, 'b) pair \<Rightarrow> ('a, 'b) std_pair" where
  "to_std_pair p = Std_pair (first p) (second p)"

subsection \<open>Comparison operators\<close>

text \<open>
  The operators are templates over the element types: what \<^verbatim>\<open>==\<close> and
  \<^verbatim>\<open><\<close> mean on \<^verbatim>\<open>T1\<close> and \<^verbatim>\<open>T2\<close> is given by the instantiation,
  so the element operators are parameters here. \<^verbatim>\<open>&&\<close> evaluates its right operand
  only when the left one is true.

  \<^verbatim>\<open>operator==: return lhs.first == rhs.first && lhs.second == rhs.second;\<close>
  \<^verbatim>\<open>operator!=: return !(lhs == rhs);\<close>
\<close>

definition pair_eq ::
  "('a \<Rightarrow> 'a \<Rightarrow> bool) \<Rightarrow> ('b \<Rightarrow> 'b \<Rightarrow> bool) \<Rightarrow> ('a, 'b) pair \<Rightarrow> ('a, 'b) pair \<Rightarrow> bool" where
  "pair_eq eq1 eq2 lhs rhs =
     (if eq1 (first lhs) (first rhs) then eq2 (second lhs) (second rhs) else False)"

definition pair_ne ::
  "('a \<Rightarrow> 'a \<Rightarrow> bool) \<Rightarrow> ('b \<Rightarrow> 'b \<Rightarrow> bool) \<Rightarrow> ('a, 'b) pair \<Rightarrow> ('a, 'b) pair \<Rightarrow> bool" where
  "pair_ne eq1 eq2 lhs rhs = (\<not> pair_eq eq1 eq2 lhs rhs)"

text \<open>
  An element type whose \<^verbatim>\<open>==\<close> is the language's and not reflexive: \<^verbatim>\<open>double\<close>. A
  value is not-a-number, an infinity, or finite, given by the real number it stands
  for. \<^verbatim>\<open>==\<close> compares the numbers, and not-a-number is unequal to every value,
  itself included.
\<close>

datatype double = NaN | PlusInfinity | MinusInfinity | Finite real

definition double_eq :: "double \<Rightarrow> double \<Rightarrow> bool" where
  "double_eq a b = (a \<noteq> NaN \<and> b \<noteq> NaN \<and> a = b)"

text \<open>
  \<^verbatim>\<open>operator<:
    if (lhs.first < rhs.first) return true;
    if (rhs.first < lhs.first) return false;
    return lhs.second < rhs.second;\<close>
\<close>

definition pair_less ::
  "('a \<Rightarrow> 'a \<Rightarrow> bool) \<Rightarrow> ('b \<Rightarrow> 'b \<Rightarrow> bool) \<Rightarrow> ('a, 'b) pair \<Rightarrow> ('a, 'b) pair \<Rightarrow> bool" where
  "pair_less lt1 lt2 lhs rhs =
     (if lt1 (first lhs) (first rhs) then True
      else if lt1 (first rhs) (first lhs) then False
      else lt2 (second lhs) (second rhs))"

text \<open>
  The requirement on an ordering the standard calls a strict weak ordering: the relation
  is irreflexive and transitive, and being unordered both ways is transitive.
\<close>

definition strict_weak_order :: "('a \<Rightarrow> 'a \<Rightarrow> bool) \<Rightarrow> bool" where
  "strict_weak_order lt \<longleftrightarrow>
     (\<forall>x. \<not> lt x x) \<and>
     (\<forall>x y z. lt x y \<longrightarrow> lt y z \<longrightarrow> lt x z) \<and>
     (\<forall>x y z. \<not> lt x y \<longrightarrow> \<not> lt y x \<longrightarrow> \<not> lt y z \<longrightarrow> \<not> lt z y \<longrightarrow> \<not> lt x z \<and> \<not> lt z x)"

subsection \<open>Hashing\<close>

text \<open>
  \<^verbatim>\<open>size_t operator()(const my_stl::pair<T1, T2>& p) const {
      auto h1 = std::hash<T1>{}(p.first);
      auto h2 = std::hash<T2>{}(p.second);
      return h1 ^ (h2 << 1); }\<close>
  \<^verbatim>\<open>size_t\<close> is an unsigned machine integer; its width \<open>'w\<close> is the platform's.
  The element hash functions are those of the instantiation.
\<close>

definition hash_pair ::
  "('a \<Rightarrow> 'w::len word) \<Rightarrow> ('b \<Rightarrow> 'w word) \<Rightarrow> ('a, 'b) pair \<Rightarrow> 'w word" where
  "hash_pair hash1 hash2 p =
     (let h1 = hash1 (first p); h2 = hash2 (second p) in h1 XOR push_bit 1 h2)"

subsection \<open>Assignment and swap, on objects with an identity\<close>

text \<open>
  Both assignment operators compare addresses (\<^verbatim>\<open>this != &other\<close>) and \<^verbatim>\<open>swap\<close>
  takes its argument by reference, so what they do depends on whether the two operands
  are one object. Objects live in a store, addressed by numbers; an operation takes the
  store and the addresses of its operands and returns the updated store.
\<close>

type_synonym ('a, 'b) store = "nat \<Rightarrow> ('a, 'b) pair"

text \<open>
  What assigning one element to another does is given by the element type. The operands
  below are always members of two different pairs, so a copy assignment is a function
  from the target's old state and the source to the target's new state, and a move
  assignment returns the new states of target and source.

  \<^verbatim>\<open>pair& operator=(const pair& other) {
      if (this != &other) { first = other.first; second = other.second; }
      return *this; }\<close>
\<close>

definition pair_copy_assign ::
  "('a \<Rightarrow> 'a \<Rightarrow> 'a) \<Rightarrow> ('b \<Rightarrow> 'b \<Rightarrow> 'b) \<Rightarrow> ('a, 'b) store \<Rightarrow> nat \<Rightarrow> nat \<Rightarrow> ('a, 'b) store" where
  "pair_copy_assign assign1 assign2 s this other =
     (if this \<noteq> other then
        (let s1 = s(this := (s this)\<lparr>first := assign1 (first (s this)) (first (s other))\<rparr>);
             s2 = s1(this := (s1 this)\<lparr>second := assign2 (second (s1 this)) (second (s1 other))\<rparr>)
         in s2)
      else s)"

text \<open>
  \<^verbatim>\<open>pair& operator=(pair&& other) noexcept {
      if (this != &other) { first = std::move(other.first); second = std::move(other.second); }
      return *this; }\<close>
\<close>

definition pair_move_assign ::
  "('a \<Rightarrow> 'a \<Rightarrow> 'a \<times> 'a) \<Rightarrow> ('b \<Rightarrow> 'b \<Rightarrow> 'b \<times> 'b) \<Rightarrow> ('a, 'b) store \<Rightarrow> nat \<Rightarrow> nat \<Rightarrow> ('a, 'b) store" where
  "pair_move_assign move1 move2 s this other =
     (if this \<noteq> other then
        (let (t1, o1) = move1 (first (s this)) (first (s other));
             s1 = s(this := (s this)\<lparr>first := t1\<rparr>, other := (s other)\<lparr>first := o1\<rparr>);
             (t2, o2) = move2 (second (s1 this)) (second (s1 other));
             s2 = s1(this := (s1 this)\<lparr>second := t2\<rparr>, other := (s1 other)\<lparr>second := o2\<rparr>)
         in s2)
      else s)"

text \<open>
  \<^verbatim>\<open>std::swap(a, b)\<close> of the standard library, on the \<^verbatim>\<open>first\<close> members and on the
  \<^verbatim>\<open>second\<close> members of the pairs at two addresses: the generic exchange
  \<^verbatim>\<open>T tmp = std::move(a); a = std::move(b); b = std::move(tmp);\<close>, each step reading the
  store the step before left, so that the two operands may be one object. A move hands
  the value over and does not throw here; element operations that throw are modelled
  further down.
\<close>

definition std_swap_first :: "('a, 'b) store \<Rightarrow> nat \<Rightarrow> nat \<Rightarrow> ('a, 'b) store" where
  "std_swap_first s a b =
     (let tmp = first (s a);
          s1 = s(a := (s a)\<lparr>first := first (s b)\<rparr>);
          s2 = s1(b := (s1 b)\<lparr>first := tmp\<rparr>)
      in s2)"

definition std_swap_second :: "('a, 'b) store \<Rightarrow> nat \<Rightarrow> nat \<Rightarrow> ('a, 'b) store" where
  "std_swap_second s a b =
     (let tmp = second (s a);
          s1 = s(a := (s a)\<lparr>second := second (s b)\<rparr>);
          s2 = s1(b := (s1 b)\<lparr>second := tmp\<rparr>)
      in s2)"

text \<open>
  \<^verbatim>\<open>void swap(pair& other) noexcept {
      using std::swap; swap(first, other.first); swap(second, other.second); }\<close>
\<close>

definition pair_swap :: "('a, 'b) store \<Rightarrow> nat \<Rightarrow> nat \<Rightarrow> ('a, 'b) store" where
  "pair_swap s this other = std_swap_second (std_swap_first s this other) this other"

text \<open>
  The free function:
  \<^verbatim>\<open>void swap(pair<T1, T2>& lhs, pair<T1, T2>& rhs) noexcept(noexcept(lhs.swap(rhs)))
    { lhs.swap(rhs); }\<close>
\<close>

definition swap :: "('a, 'b) store \<Rightarrow> nat \<Rightarrow> nat \<Rightarrow> ('a, 'b) store" where
  "swap s lhs rhs = pair_swap s lhs rhs"

subsection \<open>Element operations that throw\<close>

text \<open>
  An element operation that may throw returns \<open>Inl e\<close> for the exception \<open>e\<close>. A call of
  a function ends in one of three ways: it returns, an exception leaves it, or the
  program is terminated. A function declared \<^verbatim>\<open>noexcept\<close> never lets an exception
  out: the exception that reaches its boundary calls \<^verbatim>\<open>std::terminate\<close>.
\<close>

datatype ('e, 'r) outcome = Returned 'r | Threw 'e | Terminated

definition may_throw :: "'e + 'r \<Rightarrow> ('e, 'r) outcome" where
  "may_throw body = (case body of Inl e \<Rightarrow> Threw e | Inr r \<Rightarrow> Returned r)"

definition noexcept :: "'e + 'r \<Rightarrow> ('e, 'r) outcome" where
  "noexcept body = (case body of Inl e \<Rightarrow> Terminated | Inr r \<Rightarrow> Returned r)"

text \<open>
  A member initialiser list \<^verbatim>\<open>: first(...), second(...)\<close>: \<^verbatim>\<open>first\<close> is constructed,
  then \<^verbatim>\<open>second\<close>; the exception of either leaves the initialiser list.
\<close>

definition init_members :: "'e + 'a \<Rightarrow> 'e + 'b \<Rightarrow> 'e + ('a, 'b) pair" where
  "init_members c1 c2 =
     (case c1 of Inl e \<Rightarrow> Inl e
      | Inr x \<Rightarrow> (case c2 of Inl e \<Rightarrow> Inl e | Inr y \<Rightarrow> Inr \<lparr>first = x, second = y\<rparr>))"

text \<open>
  \<^verbatim>\<open>constexpr pair(const T1& x, const T2& y) : first(x), second(y) {}\<close>,
  with the copy constructors of the element types.
\<close>

definition pair_ctor_values ::
  "('a \<Rightarrow> 'e + 'a) \<Rightarrow> ('b \<Rightarrow> 'e + 'b) \<Rightarrow> 'a \<Rightarrow> 'b \<Rightarrow> ('e, ('a, 'b) pair) outcome" where
  "pair_ctor_values copy1 copy2 x y = may_throw (init_members (copy1 x) (copy2 y))"

text \<open>
  \<^verbatim>\<open>constexpr pair(T1&& x, T2&& y) noexcept
    : first(std::move(x)), second(std::move(y)) {}\<close>,
  with the constructors of the element types that take an rvalue.
\<close>

definition pair_ctor_rvalues ::
  "('a \<Rightarrow> 'e + 'a) \<Rightarrow> ('b \<Rightarrow> 'e + 'b) \<Rightarrow> 'a \<Rightarrow> 'b \<Rightarrow> ('e, ('a, 'b) pair) outcome" where
  "pair_ctor_rvalues move1 move2 x y = noexcept (init_members (move1 x) (move2 y))"

text \<open>
  \<^verbatim>\<open>template <typename U1, typename U2>
  constexpr pair(std::pair<U1, U2>&& other) noexcept
    : first(std::forward<U1>(other.first)), second(std::forward<U2>(other.second)) {}\<close>,
  with the constructors of \<^verbatim>\<open>T1\<close> from \<^verbatim>\<open>U1\<close> and of \<^verbatim>\<open>T2\<close> from \<^verbatim>\<open>U2\<close>.
\<close>

definition pair_ctor_std_rvalue ::
  "('u1 \<Rightarrow> 'e + 'a) \<Rightarrow> ('u2 \<Rightarrow> 'e + 'b) \<Rightarrow> ('u1, 'u2) std_pair \<Rightarrow> ('e, ('a, 'b) pair) outcome" where
  "pair_ctor_std_rvalue conv1 conv2 other =
     noexcept (init_members (conv1 (std_first other)) (conv2 (std_second other)))"

text \<open>
  \<^verbatim>\<open>void swap(pair& other) noexcept {
      using std::swap; swap(first, other.first); swap(second, other.second); }\<close>
  on two different pairs, with the exchange operations of the element types, which
  return the new states of their two operands. The result is the new states of
  \<^verbatim>\<open>*this\<close> and \<^verbatim>\<open>other\<close>.
\<close>

definition pair_swap_throwing ::
  "('a \<Rightarrow> 'a \<Rightarrow> 'e + 'a \<times> 'a) \<Rightarrow> ('b \<Rightarrow> 'b \<Rightarrow> 'e + 'b \<times> 'b) \<Rightarrow>
   ('a, 'b) pair \<Rightarrow> ('a, 'b) pair \<Rightarrow> ('e, ('a, 'b) pair \<times> ('a, 'b) pair) outcome" where
  "pair_swap_throwing swap1 swap2 this other =
     noexcept
       (case swap1 (first this) (first other) of Inl e \<Rightarrow> Inl e
        | Inr (a, b) \<Rightarrow>
            (case swap2 (second this) (second other) of Inl e \<Rightarrow> Inl e
             | Inr (c, d) \<Rightarrow> Inr (\<lparr>first = a, second = c\<rparr>, \<lparr>first = b, second = d\<rparr>)))"

section \<open>The storage layouts (include/my_stl/detail/pair_impl.hpp)\<close>

subsection \<open>The four specialisations of \<^verbatim>\<open>pair_impl_base\<close>\<close>

text \<open>
  \<^verbatim>\<open>template <typename T1, typename T2, bool FirstEmpty, bool SecondEmpty>
  class pair_impl_base;\<close> has four specialisations, four classes of their own. Each
  holds a \<^verbatim>\<open>T1\<close> and a \<^verbatim>\<open>T2\<close> subobject, as a data member (\<^verbatim>\<open>first_\<close>,
  \<^verbatim>\<open>second_\<close>) or as a private base class; the constructor's arguments are written in
  the order of the class definition, base classes before members.

  \<^verbatim>\<open>pair_impl_base<T1, T2, false, false>\<close>: members \<^verbatim>\<open>T1 first_; T2 second_;\<close>
\<close>

datatype ('a, 'b) base_ff = Base_ff (first_ff: 'a) (second_ff: 'b)

text \<open>\<^verbatim>\<open>pair_impl_base<T1, T2, true, false> : private T1\<close>, member \<^verbatim>\<open>T2 second_;\<close>\<close>

datatype ('a, 'b) base_tf = Base_tf (base1_tf: 'a) (second_tf: 'b)

text \<open>\<^verbatim>\<open>pair_impl_base<T1, T2, false, true> : private T2\<close>, member \<^verbatim>\<open>T1 first_;\<close>\<close>

datatype ('a, 'b) base_ft = Base_ft (base2_ft: 'b) (first_ft: 'a)

text \<open>\<^verbatim>\<open>pair_impl_base<T1, T2, true, true> : private T1, private T2\<close>, no member\<close>

datatype ('a, 'b) base_tt = Base_tt (base1_tt: 'a) (base2_tt: 'b)

text \<open>
  The value constructors
  \<^verbatim>\<open>pair_impl_base(U1&& u1, U2&& u2)\<close>, with the initialiser lists
  \<^verbatim>\<open>first_(u1), second_(u2)\<close>; \<^verbatim>\<open>T1(u1), second_(u2)\<close>; \<^verbatim>\<open>first_(u1), T2(u2)\<close>;
  \<^verbatim>\<open>T1(u1), T2(u2)\<close>.
\<close>

definition ctor_ff :: "'a \<Rightarrow> 'b \<Rightarrow> ('a, 'b) base_ff" where
  "ctor_ff u1 u2 = Base_ff u1 u2"

definition ctor_tf :: "'a \<Rightarrow> 'b \<Rightarrow> ('a, 'b) base_tf" where
  "ctor_tf u1 u2 = Base_tf u1 u2"

definition ctor_ft :: "'a \<Rightarrow> 'b \<Rightarrow> ('a, 'b) base_ft" where
  "ctor_ft u1 u2 = Base_ft u2 u1"

definition ctor_tt :: "'a \<Rightarrow> 'b \<Rightarrow> ('a, 'b) base_tt" where
  "ctor_tt u1 u2 = Base_tt u1 u2"

text \<open>
  The accessors \<^verbatim>\<open>first()\<close> and \<^verbatim>\<open>second()\<close>: \<^verbatim>\<open>return first_;\<close> and
  \<^verbatim>\<open>return second_;\<close> for a member, \<^verbatim>\<open>return *this;\<close> (converted to the base
  class of the return type) for a base class.
\<close>

definition first_of_ff :: "('a, 'b) base_ff \<Rightarrow> 'a" where "first_of_ff b = first_ff b"
definition second_of_ff :: "('a, 'b) base_ff \<Rightarrow> 'b" where "second_of_ff b = second_ff b"

definition first_of_tf :: "('a, 'b) base_tf \<Rightarrow> 'a" where "first_of_tf b = base1_tf b"
definition second_of_tf :: "('a, 'b) base_tf \<Rightarrow> 'b" where "second_of_tf b = second_tf b"

definition first_of_ft :: "('a, 'b) base_ft \<Rightarrow> 'a" where "first_of_ft b = first_ft b"
definition second_of_ft :: "('a, 'b) base_ft \<Rightarrow> 'b" where "second_of_ft b = base2_ft b"

definition first_of_tt :: "('a, 'b) base_tt \<Rightarrow> 'a" where "first_of_tt b = base1_tt b"
definition second_of_tt :: "('a, 'b) base_tt \<Rightarrow> 'b" where "second_of_tt b = base2_tt b"

text \<open>
  \<^verbatim>\<open>std::swap(a, b)\<close> on two different objects of an element type, as a function from
  their states to their new states: \<^verbatim>\<open>T tmp = std::move(a); a = std::move(b);
  b = std::move(tmp);\<close>
\<close>

definition std_swap :: "'a \<Rightarrow> 'a \<Rightarrow> 'a \<times> 'a" where
  "std_swap a b = (let tmp = a; a' = b; b' = tmp in (a', b'))"

text \<open>
  \<^verbatim>\<open>void swap(pair_impl_base& other)\<close> on two different objects of one specialisation;
  the result is the new states of \<^verbatim>\<open>*this\<close> and \<^verbatim>\<open>other\<close>. The bodies are
  \<^verbatim>\<open>swap(first_, other.first_); swap(second_, other.second_);\<close>,
  \<^verbatim>\<open>swap(static_cast<T1&>(*this), static_cast<T1&>(other)); swap(second_, other.second_);\<close>,
  \<^verbatim>\<open>swap(first_, other.first_); swap(static_cast<T2&>(*this), static_cast<T2&>(other));\<close>,
  \<^verbatim>\<open>swap(static_cast<T1&>(*this), static_cast<T1&>(other));
  swap(static_cast<T2&>(*this), static_cast<T2&>(other));\<close>
\<close>

definition swap_ff ::
  "('a, 'b) base_ff \<Rightarrow> ('a, 'b) base_ff \<Rightarrow> ('a, 'b) base_ff \<times> ('a, 'b) base_ff" where
  "swap_ff this other =
     (let (f, f') = std_swap (first_ff this) (first_ff other);
          (s, s') = std_swap (second_ff this) (second_ff other)
      in (Base_ff f s, Base_ff f' s'))"

definition swap_tf ::
  "('a, 'b) base_tf \<Rightarrow> ('a, 'b) base_tf \<Rightarrow> ('a, 'b) base_tf \<times> ('a, 'b) base_tf" where
  "swap_tf this other =
     (let (b, b') = std_swap (base1_tf this) (base1_tf other);
          (s, s') = std_swap (second_tf this) (second_tf other)
      in (Base_tf b s, Base_tf b' s'))"

definition swap_ft ::
  "('a, 'b) base_ft \<Rightarrow> ('a, 'b) base_ft \<Rightarrow> ('a, 'b) base_ft \<times> ('a, 'b) base_ft" where
  "swap_ft this other =
     (let (f, f') = std_swap (first_ft this) (first_ft other);
          (b, b') = std_swap (base2_ft this) (base2_ft other)
      in (Base_ft b f, Base_ft b' f'))"

definition swap_tt ::
  "('a, 'b) base_tt \<Rightarrow> ('a, 'b) base_tt \<Rightarrow> ('a, 'b) base_tt \<times> ('a, 'b) base_tt" where
  "swap_tt this other =
     (let (b1, b1') = std_swap (base1_tt this) (base1_tt other);
          (b2, b2') = std_swap (base2_tt this) (base2_tt other)
      in (Base_tt b1 b2, Base_tt b1' b2'))"

subsection \<open>\<^verbatim>\<open>pair_impl\<close>: the layout chosen by the element types\<close>

text \<open>
  \<^verbatim>\<open>class pair_impl : public pair_impl_base<T1, T2,
      is_empty_and_non_final_v<T1>, is_empty_and_non_final_v<T2>>\<close>
  is one of the four classes, fixed by the two booleans. It inherits the constructors
  (\<^verbatim>\<open>using base_type::base_type;\<close>) and the accessors (\<^verbatim>\<open>using base_type::first;
  using base_type::second;\<close>), and its \<^verbatim>\<open>swap\<close> is \<^verbatim>\<open>base_type::swap(other);\<close>.
\<close>

datatype layout = NoElision | FirstElided | SecondElided | BothElided

fun pair_impl_base_for :: "bool \<Rightarrow> bool \<Rightarrow> layout" where
  "pair_impl_base_for False False = NoElision"
| "pair_impl_base_for True False = FirstElided"
| "pair_impl_base_for False True = SecondElided"
| "pair_impl_base_for True True = BothElided"

datatype ('a, 'b) pair_impl =
    Impl_ff "('a, 'b) base_ff"
  | Impl_tf "('a, 'b) base_tf"
  | Impl_ft "('a, 'b) base_ft"
  | Impl_tt "('a, 'b) base_tt"

fun pair_impl_ctor :: "layout \<Rightarrow> 'a \<Rightarrow> 'b \<Rightarrow> ('a, 'b) pair_impl" where
  "pair_impl_ctor NoElision u1 u2 = Impl_ff (ctor_ff u1 u2)"
| "pair_impl_ctor FirstElided u1 u2 = Impl_tf (ctor_tf u1 u2)"
| "pair_impl_ctor SecondElided u1 u2 = Impl_ft (ctor_ft u1 u2)"
| "pair_impl_ctor BothElided u1 u2 = Impl_tt (ctor_tt u1 u2)"

fun pair_impl_first :: "('a, 'b) pair_impl \<Rightarrow> 'a" where
  "pair_impl_first (Impl_ff b) = first_of_ff b"
| "pair_impl_first (Impl_tf b) = first_of_tf b"
| "pair_impl_first (Impl_ft b) = first_of_ft b"
| "pair_impl_first (Impl_tt b) = first_of_tt b"

fun pair_impl_second :: "('a, 'b) pair_impl \<Rightarrow> 'b" where
  "pair_impl_second (Impl_ff b) = second_of_ff b"
| "pair_impl_second (Impl_tf b) = second_of_tf b"
| "pair_impl_second (Impl_ft b) = second_of_ft b"
| "pair_impl_second (Impl_tt b) = second_of_tt b"

text \<open>
  \<^verbatim>\<open>void swap(pair_impl& other) { base_type::swap(other); }\<close>. Its argument has the
  class of \<^verbatim>\<open>*this\<close>, so two objects of different layouts are no input of it: the
  result is \<open>None\<close> there.
\<close>

fun pair_impl_swap ::
  "('a, 'b) pair_impl \<Rightarrow> ('a, 'b) pair_impl \<Rightarrow> (('a, 'b) pair_impl \<times> ('a, 'b) pair_impl) option" where
  "pair_impl_swap (Impl_ff x) (Impl_ff y) = Some (map_prod Impl_ff Impl_ff (swap_ff x y))"
| "pair_impl_swap (Impl_tf x) (Impl_tf y) = Some (map_prod Impl_tf Impl_tf (swap_tf x y))"
| "pair_impl_swap (Impl_ft x) (Impl_ft y) = Some (map_prod Impl_ft Impl_ft (swap_ft x y))"
| "pair_impl_swap (Impl_tt x) (Impl_tt y) = Some (map_prod Impl_tt Impl_tt (swap_tt x y))"
| "pair_impl_swap _ _ = None"

text \<open>What a caller can read from an object: \<^verbatim>\<open>first()\<close> and \<^verbatim>\<open>second()\<close>.\<close>

definition contents :: "('a, 'b) pair_impl \<Rightarrow> 'a \<times> 'b" where
  "contents p = (pair_impl_first p, pair_impl_second p)"

section \<open>Element types and instantiation\<close>

text \<open>
  Which layout a pair gets, whether an instantiation compiles and how many bytes an
  object takes are decided by the element types, at compile time. The element types
  that matter to these decisions: a scalar type (an arithmetic or pointer type) of
  \<open>n\<close> bytes, aligned to \<open>n\<close>; a class without state, by its name and whether it is
  declared \<^verbatim>\<open>final\<close>; an lvalue reference \<^verbatim>\<open>T&\<close>; an array \<^verbatim>\<open>T[N]\<close>.
\<close>

datatype cpp_type =
    Scalar nat
  | EmptyClass string bool
  | LRef cpp_type
  | Array cpp_type nat

text \<open>\<^verbatim>\<open>std::is_empty_v<T>\<close> and \<^verbatim>\<open>std::is_final_v<T>\<close>: true of class types only.\<close>

fun is_empty :: "cpp_type \<Rightarrow> bool" where
  "is_empty (EmptyClass name final) = True"
| "is_empty _ = False"

fun is_final :: "cpp_type \<Rightarrow> bool" where
  "is_final (EmptyClass name final) = final"
| "is_final _ = False"

text \<open>
  include/my_stl/detail/traits.hpp:
  \<^verbatim>\<open>struct is_empty_and_non_final
     : std::bool_constant<std::is_empty_v<T> && !std::is_final_v<T>> {};\<close>
\<close>

definition is_empty_and_non_final :: "cpp_type \<Rightarrow> bool" where
  "is_empty_and_non_final t = (is_empty t \<and> \<not> is_final t)"

text \<open>
  Instantiating \<^verbatim>\<open>detail::pair_impl<T1, T2>\<close>: the partial specialisation that
  matches is taken, the most specialised one first, and the primary template when none
  matches. The result is the diagnostic of a rejected instantiation, or the layout.
  \<^verbatim>\<open>pair_impl<T1&, T2&>\<close>, \<^verbatim>\<open>pair_impl<T1&, T2>\<close> and \<^verbatim>\<open>pair_impl<T1, T2&>\<close>
  derive from \<^verbatim>\<open>pair_impl_base<..., false, false>\<close>;
  \<^verbatim>\<open>pair_impl<T1[N1], T2[N2]>\<close> holds
  \<^verbatim>\<open>static_assert(sizeof(T1) == 0, "Arrays cannot be used as pair members directly.");\<close>.
  In the primary template the two base classes of the layout
  \<^verbatim>\<open>: private T1, private T2\<close> must be two classes: the language refuses a class
  that names one direct base class twice.
\<close>

definition pair_impl_primary :: "cpp_type \<Rightarrow> cpp_type \<Rightarrow> string + layout" where
  "pair_impl_primary t1 t2 =
     (let l = pair_impl_base_for (is_empty_and_non_final t1) (is_empty_and_non_final t2)
      in if l = BothElided \<and> t1 = t2 then Inl ''duplicate base type'' else Inr l)"

fun pair_impl_instance :: "cpp_type \<Rightarrow> cpp_type \<Rightarrow> string + layout" where
  "pair_impl_instance (LRef t1) (LRef t2) = Inr NoElision"
| "pair_impl_instance (LRef t1) t2 = Inr NoElision"
| "pair_impl_instance t1 (LRef t2) = Inr NoElision"
| "pair_impl_instance (Array t1 n1) (Array t2 n2) =
     Inl ''Arrays cannot be used as pair members directly.''"
| "pair_impl_instance t1 t2 = pair_impl_primary t1 t2"

text \<open>
  Instantiating \<^verbatim>\<open>my_stl::pair<T1, T2>\<close> (include/my_stl/pair.hpp): the class has no
  base class and no \<^verbatim>\<open>static_assert\<close>, and it does not name \<^verbatim>\<open>detail::pair_impl\<close>;
  its data members are \<^verbatim>\<open>first_type first; second_type second;\<close>. Its member
  functions are declared with the class. With two lvalue references as element types
  the constructors \<^verbatim>\<open>pair(const T1& x, const T2& y)\<close> and \<^verbatim>\<open>pair(T1&& x, T2&& y)\<close>
  both take \<^verbatim>\<open>(T1, T2)\<close>, since a reference to a reference is the reference: the
  language refuses the second declaration. With any other element types, arrays
  among them, no two declarations coincide. The result is the diagnostic of a rejected
  instantiation, or the list of the data members.
\<close>

definition pair_members :: "cpp_type \<Rightarrow> cpp_type \<Rightarrow> cpp_type list" where
  "pair_members t1 t2 = [t1, t2]"

fun pair_instance :: "cpp_type \<Rightarrow> cpp_type \<Rightarrow> string + cpp_type list" where
  "pair_instance (LRef t1) (LRef t2) = Inl ''constructor cannot be overloaded''"
| "pair_instance t1 t2 = Inr (pair_members t1 t2)"

text \<open>
  The data members of the four specialisations of \<^verbatim>\<open>pair_impl_base\<close>; an elided
  element is a base class and no data member.
\<close>

fun pair_impl_base_members :: "layout \<Rightarrow> cpp_type \<Rightarrow> cpp_type \<Rightarrow> cpp_type list" where
  "pair_impl_base_members NoElision t1 t2 = [t1, t2]"
| "pair_impl_base_members FirstElided t1 t2 = [t2]"
| "pair_impl_base_members SecondElided t1 t2 = [t1]"
| "pair_impl_base_members BothElided t1 t2 = []"

subsection \<open>Object sizes\<close>

text \<open>
  The base classes of the four specialisations of \<^verbatim>\<open>pair_impl_base\<close>: the elided
  elements, in the order of the class head.
\<close>

fun pair_impl_base_bases :: "layout \<Rightarrow> cpp_type \<Rightarrow> cpp_type \<Rightarrow> cpp_type list" where
  "pair_impl_base_bases NoElision t1 t2 = []"
| "pair_impl_base_bases FirstElided t1 t2 = [t1]"
| "pair_impl_base_bases SecondElided t1 t2 = [t2]"
| "pair_impl_base_bases BothElided t1 t2 = [t1, t2]"

text \<open>
  \<^verbatim>\<open>sizeof\<close> is the compiler's, not the repository's: below it is a parameter
  \<open>layout\<close>, a function from the base classes of a class and its data members, both
  in the order of their declaration, to the size of the class.

  \<^verbatim>\<open>sizeof(my_stl::pair<T1, T2>)\<close>: no base class, the two members.
\<close>

definition sizeof_pair ::
  "(cpp_type list \<Rightarrow> cpp_type list \<Rightarrow> nat) \<Rightarrow> cpp_type \<Rightarrow> cpp_type \<Rightarrow> nat" where
  "sizeof_pair layout t1 t2 = layout [] (pair_members t1 t2)"

text \<open>\<^verbatim>\<open>sizeof\<close> of a specialisation of \<^verbatim>\<open>pair_impl_base\<close>\<close>

definition sizeof_pair_impl_base ::
  "(cpp_type list \<Rightarrow> cpp_type list \<Rightarrow> nat) \<Rightarrow> layout \<Rightarrow> cpp_type \<Rightarrow> cpp_type \<Rightarrow> nat" where
  "sizeof_pair_impl_base layout l t1 t2 =
     layout (pair_impl_base_bases l t1 t2) (pair_impl_base_members l t1 t2)"

text \<open>
  The size the specification compares with, of a naive two-field struct with the same
  element types: \<^verbatim>\<open>struct naive { T1 a; T2 b; };\<close>
\<close>

definition sizeof_naive ::
  "(cpp_type list \<Rightarrow> cpp_type list \<Rightarrow> nat) \<Rightarrow> cpp_type \<Rightarrow> cpp_type \<Rightarrow> nat" where
  "sizeof_naive layout t1 t2 = layout [] [t1, t2]"

text \<open>
  One such \<open>layout\<close>, the rule of the compilers the test suite is built with, for a
  class without virtual functions. A scalar type of \<open>n\<close> bytes is aligned to \<open>n\<close>, a
  class without state has size one, a reference member is stored as a pointer of
  eight bytes.
\<close>

fun size_of :: "cpp_type \<Rightarrow> nat" where
  "size_of (Scalar n) = n"
| "size_of (EmptyClass name final) = 1"
| "size_of (LRef t) = 8"
| "size_of (Array t n) = n * size_of t"

fun align_of :: "cpp_type \<Rightarrow> nat" where
  "align_of (Scalar n) = max 1 n"
| "align_of (EmptyClass name final) = 1"
| "align_of (LRef t) = 8"
| "align_of (Array t n) = align_of t"

definition round_up :: "nat \<Rightarrow> nat \<Rightarrow> nat" where
  "round_up n a = ((n + a - 1) div a) * a"

text \<open>
  Two subobjects of one class type never share an address. The subobjects that
  could, having no state: the classes without state inside an object of type \<open>t\<close>
  placed at an offset, each with its own offset.
\<close>

fun empties :: "cpp_type \<Rightarrow> nat \<Rightarrow> (cpp_type \<times> nat) list" where
  "empties (EmptyClass name final) offset = [(EmptyClass name final, offset)]"
| "empties (Array t n) offset = concat (map (\<lambda>i. empties t (offset + i * size_of t)) [0..<n])"
| "empties (Scalar n) offset = []"
| "empties (LRef t) offset = []"

definition conflict :: "(cpp_type \<times> nat) list \<Rightarrow> cpp_type \<Rightarrow> nat \<Rightarrow> bool" where
  "conflict placed t offset = list_ex (\<lambda>e. List.member placed e) (empties t offset)"

text \<open>
  The first offset, from \<open>offset\<close> on in steps of the alignment, at which \<open>t\<close> meets no
  subobject placed before. Every pair of a subobject placed and a subobject of \<open>t\<close>
  rules out one offset at most, which bounds the search.
\<close>

fun first_free :: "nat \<Rightarrow> (cpp_type \<times> nat) list \<Rightarrow> cpp_type \<Rightarrow> nat \<Rightarrow> nat" where
  "first_free 0 placed t offset = offset"
| "first_free (Suc tries) placed t offset =
     (if conflict placed t offset then first_free tries placed t (offset + align_of t)
      else offset)"

definition free_offset :: "(cpp_type \<times> nat) list \<Rightarrow> cpp_type \<Rightarrow> nat \<Rightarrow> nat" where
  "free_offset placed t offset =
     first_free (length placed * length (empties t 0)) placed t offset"

text \<open>
  A class under construction: the subobjects without state placed so far, the end of
  the data, the size and the alignment.
\<close>

record class_layout =
  placed :: "(cpp_type \<times> nat) list"
  dsize :: nat
  csize :: nat
  calign :: nat

text \<open>
  A data member goes to the first free offset from the end of the data, rounded up to
  its alignment; the data then ends where the member ends.
\<close>

definition place_member :: "cpp_type \<Rightarrow> class_layout \<Rightarrow> class_layout" where
  "place_member t c =
     (let offset = free_offset (placed c) t (round_up (dsize c) (align_of t)) in
      \<lparr>placed = empties t offset @ placed c,
       dsize = offset + size_of t,
       csize = max (csize c) (offset + size_of t),
       calign = max (calign c) (align_of t)\<rparr>)"

text \<open>
  A base class without state goes to offset zero when no subobject of its type is
  there, and to the first free offset from the end of the data otherwise; it does not
  move the end of the data. Any other base class is placed as a member is.
\<close>

definition place_base :: "cpp_type \<Rightarrow> class_layout \<Rightarrow> class_layout" where
  "place_base t c =
     (if is_empty t then
        (let offset = (if conflict (placed c) t 0
                       then free_offset (placed c) t (round_up (dsize c) (align_of t))
                       else 0) in
         \<lparr>placed = empties t offset @ placed c,
          dsize = dsize c,
          csize = max (csize c) (offset + size_of t),
          calign = max (calign c) (align_of t)\<rparr>)
      else place_member t c)"

text \<open>
  The base classes are placed, then the data members; the size is rounded up to the
  alignment and is one byte at least.
\<close>

definition struct_size :: "cpp_type list \<Rightarrow> cpp_type list \<Rightarrow> nat" where
  "struct_size bases members =
     (let c0 = \<lparr>placed = [], dsize = 0, csize = 0, calign = 1\<rparr>;
          c1 = fold place_base bases c0;
          c2 = fold place_member members c1
      in max 1 (round_up (csize c2) (calign c2)))"

section \<open>Equality and ordering\<close>

lemma strict_weak_order_irrefl: "strict_weak_order lt \<Longrightarrow> \<not> lt x x"
  by (simp add: strict_weak_order_def)

lemma strict_weak_order_trans: "strict_weak_order lt \<Longrightarrow> lt x y \<Longrightarrow> lt y z \<Longrightarrow> lt x z"
  unfolding strict_weak_order_def by blast

lemma strict_weak_order_asym: "strict_weak_order lt \<Longrightarrow> lt x y \<Longrightarrow> \<not> lt y x"
  using strict_weak_order_irrefl strict_weak_order_trans by metis

lemma strict_weak_order_incomp:
  "strict_weak_order lt \<Longrightarrow> \<not> lt x y \<Longrightarrow> \<not> lt y x \<Longrightarrow> \<not> lt y z \<Longrightarrow> \<not> lt z y
     \<Longrightarrow> \<not> lt x z \<and> \<not> lt z x"
  unfolding strict_weak_order_def by blast

lemma strict_weak_order_negtrans:
  assumes "strict_weak_order lt" "lt x z"
  shows "lt x y \<or> lt y z"
proof (rule ccontr)
  assume a: "\<not> (lt x y \<or> lt y z)"
  then have nxy: "\<not> lt x y" and nyz: "\<not> lt y z" by simp_all
  have nyx: "\<not> lt y x"
  proof
    assume "lt y x"
    then have "lt y z" using assms strict_weak_order_trans by metis
    with nyz show False by simp
  qed
  have nzy: "\<not> lt z y"
  proof
    assume "lt z y"
    then have "lt x y" using assms strict_weak_order_trans by metis
    with nxy show False by simp
  qed
  from strict_weak_order_incomp [OF assms(1) nxy nyx nyz nzy] assms(2) show False by simp
qed

lemma strict_weak_order_less_nat: "strict_weak_order ((<) :: nat \<Rightarrow> nat \<Rightarrow> bool)"
  by (auto simp: strict_weak_order_def)

text \<open>
  With an asymmetric order on the first elements, \<^verbatim>\<open>operator<\<close> is the lexicographic
  order written as one disjunction.
\<close>

lemma pair_less_cases:
  assumes "strict_weak_order lt1"
  shows "pair_less lt1 lt2 p q \<longleftrightarrow>
    lt1 (first p) (first q) \<or>
    (\<not> lt1 (first p) (first q) \<and> \<not> lt1 (first q) (first p) \<and> lt2 (second p) (second q))"
  by (auto simp: pair_less_def)

lemma pair_less_irrefl:
  "strict_weak_order lt1 \<Longrightarrow> strict_weak_order lt2 \<Longrightarrow> \<not> pair_less lt1 lt2 p p"
  by (simp add: pair_less_def strict_weak_order_irrefl)

lemma pair_less_trans:
  assumes s1: "strict_weak_order lt1" and s2: "strict_weak_order lt2"
    and pq: "pair_less lt1 lt2 p q" and qr: "pair_less lt1 lt2 q r"
  shows "pair_less lt1 lt2 p r"
proof -
  note c = pair_less_cases [OF s1, of lt2]
  from pq [unfolded c] show ?thesis
  proof
    assume a: "lt1 (first p) (first q)"
    from strict_weak_order_negtrans [OF s1 a, of "first r"]
    show ?thesis
    proof
      assume "lt1 (first p) (first r)"
      then show ?thesis by (simp add: c)
    next
      assume b: "lt1 (first r) (first q)"
      then have "\<not> lt1 (first q) (first r)"
        using strict_weak_order_asym [OF s1] by blast
      with b qr [unfolded c] show ?thesis by simp
    qed
  next
    assume a: "\<not> lt1 (first p) (first q) \<and> \<not> lt1 (first q) (first p) \<and> lt2 (second p) (second q)"
    from qr [unfolded c] show ?thesis
    proof
      assume b: "lt1 (first q) (first r)"
      from strict_weak_order_negtrans [OF s1 b, of "first p"] a
      have "lt1 (first p) (first r)" by simp
      then show ?thesis by (simp add: c)
    next
      assume b: "\<not> lt1 (first q) (first r) \<and> \<not> lt1 (first r) (first q) \<and> lt2 (second q) (second r)"
      from a b have i: "\<not> lt1 (first p) (first r) \<and> \<not> lt1 (first r) (first p)"
        using strict_weak_order_incomp [OF s1, of "first p" "first q" "first r"] by simp
      from a b have "lt2 (second p) (second r)"
        using strict_weak_order_trans [OF s2, of "second p" "second q" "second r"] by simp
      with i show ?thesis by (simp add: c)
    qed
  qed
qed

lemma pair_less_negtrans:
  assumes s1: "strict_weak_order lt1" and s2: "strict_weak_order lt2"
    and pr: "pair_less lt1 lt2 p r"
  shows "pair_less lt1 lt2 p q \<or> pair_less lt1 lt2 q r"
proof -
  note c = pair_less_cases [OF s1, of lt2]
  from pr [unfolded c] show ?thesis
  proof
    assume a: "lt1 (first p) (first r)"
    from strict_weak_order_negtrans [OF s1 a, of "first q"]
    show ?thesis by (auto simp: c)
  next
    assume a: "\<not> lt1 (first p) (first r) \<and> \<not> lt1 (first r) (first p) \<and> lt2 (second p) (second r)"
    show ?thesis
    proof (cases "lt1 (first p) (first q) \<or> lt1 (first q) (first r)")
      case True
      then show ?thesis by (auto simp: c)
    next
      case False
      then have n1: "\<not> lt1 (first p) (first q)" and n2: "\<not> lt1 (first q) (first r)" by simp_all
      have n3: "\<not> lt1 (first q) (first p)"
      proof
        assume "lt1 (first q) (first p)"
        from strict_weak_order_negtrans [OF s1 this, of "first r"] a n2 show False by simp
      qed
      have n4: "\<not> lt1 (first r) (first q)"
      proof
        assume "lt1 (first r) (first q)"
        from strict_weak_order_negtrans [OF s1 this, of "first p"] a n1 show False by simp
      qed
      from a strict_weak_order_negtrans [OF s2, of "second p" "second r" "second q"]
      have "lt2 (second p) (second q) \<or> lt2 (second q) (second r)" by simp
      with n1 n2 n3 n4 show ?thesis by (auto simp: c)
    qed
  qed
qed

lemma pair_less_incomp:
  assumes s1: "strict_weak_order lt1" and s2: "strict_weak_order lt2"
    and "\<not> pair_less lt1 lt2 p q" "\<not> pair_less lt1 lt2 q p"
    and "\<not> pair_less lt1 lt2 q r" "\<not> pair_less lt1 lt2 r q"
  shows "\<not> pair_less lt1 lt2 p r \<and> \<not> pair_less lt1 lt2 r p"
  using pair_less_negtrans [OF s1 s2, of p r q] pair_less_negtrans [OF s1 s2, of r p q] assms(3-)
  by blast

text \<open>
  C5. For all pairs \<open>p\<close> and \<open>q\<close> of the same element types, whatever the element
  types' \<^verbatim>\<open>==\<close> are: \<open>p == q\<close> holds if and only if \<open>p.first == q.first\<close> and
  \<open>p.second == q.second\<close>, and \<open>p != q\<close> holds if and only if \<open>p == q\<close> does not.
  Where \<^verbatim>\<open>==\<close> on the elements is identity of values, \<open>p == q\<close> is identity of the
  pairs.
\<close>

theorem pair_eq_iff_both_slots_equal:
  "(pair_eq eq1 eq2 p q \<longleftrightarrow> eq1 (first p) (first q) \<and> eq2 (second p) (second q)) \<and>
   (pair_ne eq1 eq2 p q \<longleftrightarrow> \<not> pair_eq eq1 eq2 p q) \<and>
   (pair_eq (=) (=) p q \<longleftrightarrow> p = q)"
  by (auto simp: pair_eq_def pair_ne_def)

text \<open>
  C6. For all pairs \<open>p\<close> and \<open>q\<close> of the same element types whose \<^verbatim>\<open><\<close> are strict
  weak orderings, \<open>p < q\<close> is the lexicographic comparison of (first, second): when
  \<open>p.first < q.first\<close> the pair is less; when \<open>q.first < p.first\<close> it is not less;
  otherwise the result is \<open>p.second < q.second\<close>. And \<open>p < q\<close> is itself a strict weak
  ordering of the pairs.
\<close>

theorem pair_less_lexicographic_strict_weak:
  assumes "strict_weak_order lt1" and "strict_weak_order lt2"
  shows "(lt1 (first p) (first q) \<longrightarrow> pair_less lt1 lt2 p q) \<and>
         (lt1 (first q) (first p) \<longrightarrow> \<not> pair_less lt1 lt2 p q) \<and>
         (\<not> lt1 (first p) (first q) \<and> \<not> lt1 (first q) (first p) \<longrightarrow>
            pair_less lt1 lt2 p q = lt2 (second p) (second q)) \<and>
         strict_weak_order (pair_less lt1 lt2)"
proof -
  have swo: "strict_weak_order (pair_less lt1 lt2)"
    unfolding strict_weak_order_def [of "pair_less lt1 lt2"]
    using pair_less_irrefl [OF assms] pair_less_trans [OF assms] pair_less_incomp [OF assms]
    by blast
  have asym: "lt1 (first q) (first p) \<Longrightarrow> \<not> lt1 (first p) (first q)"
    using strict_weak_order_asym [OF assms(1)] by blast
  show ?thesis using swo asym by (auto simp: pair_less_def)
qed

theorem pair_less_lexicographic_strict_weak_witness:
  "strict_weak_order ((<) :: nat \<Rightarrow> nat \<Rightarrow> bool) \<and>
   pair_less (<) (<) \<lparr>first = 1::nat, second = 5::nat\<rparr> \<lparr>first = 2, second = 0\<rparr> \<and>
   \<not> pair_less (<) (<) \<lparr>first = 2::nat, second = 0::nat\<rparr> \<lparr>first = 1, second = 5\<rparr> \<and>
   pair_less (<) (<) \<lparr>first = 1::nat, second = 5::nat\<rparr> \<lparr>first = 1, second = 7\<rparr> \<and>
   strict_weak_order (pair_less ((<) :: nat \<Rightarrow> nat \<Rightarrow> bool) ((<) :: nat \<Rightarrow> nat \<Rightarrow> bool))"
  using pair_less_lexicographic_strict_weak
          [OF strict_weak_order_less_nat strict_weak_order_less_nat,
           of "\<lparr>first = 1, second = 5\<rparr>" "\<lparr>first = 2, second = 0\<rparr>"]
        pair_less_lexicographic_strict_weak
          [OF strict_weak_order_less_nat strict_weak_order_less_nat,
           of "\<lparr>first = 2, second = 0\<rparr>" "\<lparr>first = 1, second = 5\<rparr>"]
        pair_less_lexicographic_strict_weak
          [OF strict_weak_order_less_nat strict_weak_order_less_nat,
           of "\<lparr>first = 1, second = 5\<rparr>" "\<lparr>first = 1, second = 7\<rparr>"]
        strict_weak_order_less_nat
  by simp

section \<open>Hashing\<close>

text \<open>
  C7. For every pair \<open>p\<close> and all element hash functions, the hash of the pair is
  \<open>h1 XOR (h2 shifted left by one bit)\<close>, where \<open>h1\<close> is the hash of \<open>p.first\<close> and
  \<open>h2\<close> the hash of \<open>p.second\<close>. The shift is that of \<^verbatim>\<open>size_t\<close>: it doubles
  \<open>h2\<close> modulo two to the width, so the top bit of \<open>h2\<close> is lost.
\<close>

theorem hash_pair_xor_shift:
  "hash_pair hash1 hash2 p = hash1 (first p) XOR push_bit 1 (hash2 (second p)) \<and>
   hash_pair hash1 hash2 p = hash1 (first p) XOR (2 * hash2 (second p)) \<and>
   unat (hash_pair hash1 hash2 p :: 'w::len word) =
     unat (hash1 (first p)) XOR ((2 * unat (hash2 (second p))) mod 2 ^ LENGTH('w))"
  by (simp add: hash_pair_def Let_def push_bit_eq_mult unsigned_xor_eq unat_word_ariths mult.commute)

section \<open>Conversion to and from the standard pair\<close>

lemma pair_eq_roundtrip_iff:
  "pair_eq eq1 eq2 (pair_from_std (to_std_pair p)) p \<longleftrightarrow>
     eq1 (first p) (first p) \<and> eq2 (second p) (second p)"
  by (simp add: pair_eq_def pair_from_std_def to_std_pair_def)

text \<open>
  C8, as the claim states it, at \<^verbatim>\<open>my_stl::pair<double, int>\<close> holding not-a-number
  and 1: the pair converted to \<^verbatim>\<open>std::pair\<close> and back does not compare equal to the
  pair it came from.
\<close>

theorem std_pair_roundtrip_nan_not_equal:
  "\<not> pair_eq double_eq (=)
       (pair_from_std (to_std_pair \<lparr>first = NaN, second = 1::int\<rparr>))
       \<lparr>first = NaN, second = 1::int\<rparr>"
  by (simp add: pair_eq_def pair_from_std_def to_std_pair_def double_eq_def)

text \<open>
  C8. For every pair \<open>p\<close> whose two elements compare equal to themselves
  (\<open>p.first == p.first\<close> and \<open>p.second == p.second\<close>): converting \<open>p\<close> to
  \<^verbatim>\<open>std::pair\<close> and constructing a pair from that \<^verbatim>\<open>std::pair\<close> gives a pair
  equal to \<open>p\<close>. It holds the very values of \<open>p\<close>.
\<close>

theorem std_pair_roundtrip:
  assumes "eq1 (first p) (first p)" and "eq2 (second p) (second p)"
  shows "pair_eq eq1 eq2 (pair_from_std (to_std_pair p)) p \<and> pair_from_std (to_std_pair p) = p"
  using assms by (simp add: pair_eq_def pair_from_std_def to_std_pair_def)

theorem std_pair_roundtrip_witness:
  "double_eq (Finite 2.5) (Finite 2.5) \<and> (1::int) = 1 \<and>
   pair_eq double_eq (=)
     (pair_from_std (to_std_pair \<lparr>first = Finite 2.5, second = 1::int\<rparr>))
     \<lparr>first = Finite 2.5, second = 1::int\<rparr> \<and>
   pair_from_std (to_std_pair \<lparr>first = Finite 2.5, second = 1::int\<rparr>)
     = \<lparr>first = Finite 2.5, second = 1::int\<rparr>"
proof -
  have d: "double_eq (Finite 2.5) (Finite 2.5)"
    by (simp add: double_eq_def)
  have i: "(1::int) = 1"
    by simp
  have "pair_eq double_eq (=)
     (pair_from_std (to_std_pair \<lparr>first = Finite 2.5, second = 1::int\<rparr>))
     \<lparr>first = Finite 2.5, second = 1::int\<rparr> \<and>
   pair_from_std (to_std_pair \<lparr>first = Finite 2.5, second = 1::int\<rparr>)
     = \<lparr>first = Finite 2.5, second = 1::int\<rparr>"
    by (rule std_pair_roundtrip) (simp_all add: double_eq_def)
  with d i show ?thesis by blast
qed

section \<open>The four layouts\<close>

lemma contents_pair_impl_ctor: "contents (pair_impl_ctor l u1 u2) = (u1, u2)"
  by (cases l)
     (simp_all add: contents_def ctor_ff_def ctor_tf_def ctor_ft_def ctor_tt_def
        first_of_ff_def first_of_tf_def first_of_ft_def first_of_tt_def
        second_of_ff_def second_of_tf_def second_of_ft_def second_of_tt_def)

lemma contents_pair_impl_swap:
  "map_option (map_prod contents contents)
     (pair_impl_swap (pair_impl_ctor l u1 u2) (pair_impl_ctor l v1 v2)) = Some ((v1, v2), (u1, u2))"
  by (cases l)
     (simp_all add: contents_def ctor_ff_def ctor_tf_def ctor_ft_def ctor_tt_def
        first_of_ff_def first_of_tf_def first_of_ft_def first_of_tt_def
        second_of_ff_def second_of_tf_def second_of_ft_def second_of_tt_def
        swap_ff_def swap_tf_def swap_ft_def swap_tt_def std_swap_def)

text \<open>
  C1. For all element types, all values \<open>u1\<close>, \<open>u2\<close>, \<open>v1\<close>, \<open>v2\<close> and any two of the
  four layouts \<open>l\<close> and \<open>l'\<close>: an object constructed from \<open>(u1, u2)\<close> in layout \<open>l\<close>
  reads back as \<open>first() = u1\<close> and \<open>second() = u2\<close>, the same as in layout \<open>l'\<close> and
  the same as the members of the two-field pair; and \<^verbatim>\<open>swap\<close> of two objects of
  layout \<open>l\<close>, made from \<open>(u1, u2)\<close> and \<open>(v1, v2)\<close>, leaves the first reading
  \<open>(v1, v2)\<close> and the second \<open>(u1, u2)\<close>, the same as in layout \<open>l'\<close>.
\<close>

theorem layouts_observably_equivalent:
  "contents (pair_impl_ctor l u1 u2) = (u1, u2) \<and>
   contents (pair_impl_ctor l u1 u2) = contents (pair_impl_ctor l' u1 u2) \<and>
   contents (pair_impl_ctor l u1 u2) = (first (pair_ctor u1 u2), second (pair_ctor u1 u2)) \<and>
   map_option (map_prod contents contents)
     (pair_impl_swap (pair_impl_ctor l u1 u2) (pair_impl_ctor l v1 v2)) = Some ((v1, v2), (u1, u2)) \<and>
   map_option (map_prod contents contents)
     (pair_impl_swap (pair_impl_ctor l u1 u2) (pair_impl_ctor l v1 v2)) =
   map_option (map_prod contents contents)
     (pair_impl_swap (pair_impl_ctor l' u1 u2) (pair_impl_ctor l' v1 v2))"
  by (simp add: contents_pair_impl_ctor contents_pair_impl_swap pair_ctor_def)

section \<open>Swap and self-assignment\<close>

lemma pair_swap_same: "pair_swap s a a = s"
  by (simp add: pair_swap_def std_swap_first_def std_swap_second_def Let_def)

lemma pair_swap_exchanges: "pair_swap s a b = s(a := s b, b := s a)"
  by (rule ext) (simp add: pair_swap_def std_swap_first_def std_swap_second_def Let_def)

lemma pair_swap_twice: "pair_swap (pair_swap s a b) a b = s"
  by (rule ext) (simp add: pair_swap_exchanges)

text \<open>
  C9. For every pair \<open>p\<close> of every store, \<open>swap(p, p)\<close> leaves the store, and so \<open>p\<close>,
  unchanged; for all pairs \<open>p\<close> and \<open>q\<close>, \<open>swap(p, q)\<close> done twice restores the store,
  and so both \<open>p\<close> and \<open>q\<close>. One \<open>swap(p, q)\<close> leaves in \<open>p\<close> what \<open>q\<close> held and in
  \<open>q\<close> what \<open>p\<close> held.
\<close>

theorem swap_self_and_involution:
  "swap s p p = s \<and> swap (swap s p q) p q = s \<and>
   (swap s p q) p = s q \<and> (swap s p q) q = s p"
  by (simp add: swap_def pair_swap_same pair_swap_twice) (simp add: pair_swap_exchanges)

text \<open>
  C10. For every pair \<open>p\<close> and whatever the assignment operators of the element types
  do, also when they destroy a value: the copy assignment \<open>p = p\<close> and the move
  assignment \<open>p = std::move(p)\<close> leave the store unchanged, so \<open>p.first\<close> and
  \<open>p.second\<close> are what they were. Neither operator calls an element assignment when
  source and target are one object.
\<close>

theorem self_assignment_keeps_both_slots:
  "pair_copy_assign assign1 assign2 s p p = s \<and>
   pair_move_assign move1 move2 s p p = s \<and>
   first (pair_copy_assign assign1 assign2 s p p p) = first (s p) \<and>
   second (pair_copy_assign assign1 assign2 s p p p) = second (s p) \<and>
   first (pair_move_assign move1 move2 s p p p) = first (s p) \<and>
   second (pair_move_assign move1 move2 s p p p) = second (s p)"
  by (simp add: pair_copy_assign_def pair_move_assign_def)

section \<open>Exceptions of the element types\<close>

text \<open>
  The constructor from two values is not declared \<^verbatim>\<open>noexcept\<close>: the exception of an
  element's copy constructor leaves it as it is.
\<close>

lemma pair_ctor_values_propagates:
  "copy1 x = Inl e \<Longrightarrow> pair_ctor_values copy1 copy2 x y = Threw e"
  by (simp add: pair_ctor_values_def may_throw_def init_members_def)

text \<open>
  The three operations declared \<^verbatim>\<open>noexcept\<close> return or terminate the program; no
  exception leaves them.
\<close>

lemma noexcept_never_throws: "noexcept body \<noteq> Threw e"
  by (simp add: noexcept_def split: sum.splits)

lemma pair_ctor_rvalues_never_throws: "pair_ctor_rvalues move1 move2 x y \<noteq> Threw e"
  by (simp add: pair_ctor_rvalues_def noexcept_never_throws)

lemma pair_ctor_std_rvalue_never_throws: "pair_ctor_std_rvalue conv1 conv2 other \<noteq> Threw e"
  by (simp add: pair_ctor_std_rvalue_def noexcept_never_throws)

lemma pair_swap_throwing_never_throws: "pair_swap_throwing swap1 swap2 this other \<noteq> Threw e"
  by (simp add: pair_swap_throwing_def noexcept_never_throws)

text \<open>
  C3. The element type of test/integration/test_with_std.cpp, whose copy constructor
  throws \<^verbatim>\<open>"Copy failed"\<close> (it has no move constructor, so an rvalue is copied, and
  \<^verbatim>\<open>std::swap\<close> starts with that copy): the constructor from two rvalues, the
  constructor from an rvalue \<^verbatim>\<open>std::pair\<close> and \<^verbatim>\<open>swap\<close> terminate the program on
  it, where the constructor from two values lets the same exception through to the
  caller.
\<close>

theorem noexcept_operations_terminate:
  "pair_ctor_rvalues (\<lambda>v::int. Inl ''Copy failed'') (\<lambda>v::int. Inr v) 42 100 = Terminated \<and>
   pair_ctor_std_rvalue (\<lambda>v::int. Inl ''Copy failed'') (\<lambda>v::int. Inr v) (Std_pair 42 100)
     = (Terminated :: (string, (int, int) pair) outcome) \<and>
   pair_swap_throwing (\<lambda>a b::int. Inl ''Copy failed'') (\<lambda>a b::int. Inr (b, a))
     \<lparr>first = 1, second = 2\<rparr> \<lparr>first = 3, second = 4\<rparr> = Terminated \<and>
   pair_ctor_values (\<lambda>v::int. Inl ''Copy failed'') (\<lambda>v::int. Inr v) 42 100 = Threw ''Copy failed''"
  by (simp add: pair_ctor_rvalues_def pair_ctor_std_rvalue_def pair_swap_throwing_def
      pair_ctor_values_def noexcept_def may_throw_def init_members_def)

section \<open>Array element types\<close>

text \<open>
  The one instantiation a diagnostic rejects: \<^verbatim>\<open>detail::pair_impl\<close> with two array
  types.
\<close>

lemma pair_impl_instance_two_arrays:
  "pair_impl_instance (Array t1 n1) (Array t2 n2) =
     Inl ''Arrays cannot be used as pair members directly.''"
  by simp

text \<open>\<^verbatim>\<open>my_stl::pair\<close> rejects no array, in either slot.\<close>

lemma pair_instance_accepts_array:
  "pair_instance (Array t n) t2 = Inr [Array t n, t2]"
  "pair_instance t1 (Array t n) = Inr [t1, Array t n]"
  by (cases t2; simp add: pair_members_def) (cases t1; simp add: pair_members_def)

text \<open>
  C4. With \<^verbatim>\<open>int[3]\<close> as an element type, in the first slot or in both,
  \<^verbatim>\<open>my_stl::pair\<close> is instantiated without a diagnostic, with an array as a data
  member; and \<^verbatim>\<open>detail::pair_impl\<close> with an array in one slot only is instantiated in
  the layout without elision. The diagnostic is given by \<^verbatim>\<open>detail::pair_impl\<close> with
  arrays in both slots, and there only.
\<close>

theorem array_element_types_accepted:
  "pair_instance (Array (Scalar 4) 3) (Scalar 4) = Inr [Array (Scalar 4) 3, Scalar 4] \<and>
   pair_instance (Scalar 4) (Array (Scalar 4) 3) = Inr [Scalar 4, Array (Scalar 4) 3] \<and>
   pair_instance (Array (Scalar 4) 3) (Array (Scalar 1) 2)
     = Inr [Array (Scalar 4) 3, Array (Scalar 1) 2] \<and>
   pair_impl_instance (Array (Scalar 4) 3) (Scalar 4) = Inr NoElision \<and>
   pair_impl_instance (Scalar 4) (Array (Scalar 4) 3) = Inr NoElision \<and>
   pair_impl_instance (Array (Scalar 4) 3) (Array (Scalar 1) 2)
     = Inl ''Arrays cannot be used as pair members directly.''"
  by (simp add: pair_members_def pair_impl_primary_def is_empty_and_non_final_def)

section \<open>Storage size\<close>

text \<open>
  The pair is the two-field struct: whatever the element types and whatever the
  compiler's layout, its size is the size of the naive layout of the same two fields,
  and never less.
\<close>

lemma sizeof_pair_is_naive: "sizeof_pair layout t1 t2 = sizeof_naive layout t1 t2"
  by (simp add: sizeof_pair_def sizeof_naive_def pair_members_def)

text \<open>The usual rule at the element types of test/unit/test_pair_ebco.cpp.\<close>

lemma struct_size_empty_int: "struct_size [] [EmptyClass ''Empty1'' False, Scalar 4] = 8"
  by code_simp

lemma struct_size_two_empty:
  "struct_size [] [EmptyClass ''Empty1'' False, EmptyClass ''Empty2'' False] = 2"
  by code_simp

lemma struct_size_first_elided: "struct_size [EmptyClass ''Empty1'' False] [Scalar 4] = 4"
  by code_simp

lemma struct_size_both_elided:
  "struct_size [EmptyClass ''Empty1'' False, EmptyClass ''Empty2'' False] [] = 1"
  by code_simp

text \<open>
  A base class and a member of its own type do not share an address: the array
  member of \<^verbatim>\<open>pair_impl_base<Empty1, Empty1[2], true, false>\<close> starts after the base.
\<close>

lemma struct_size_base_and_array_of_base:
  "sizeof_pair_impl_base struct_size FirstElided
     (EmptyClass ''Empty1'' False) (Array (EmptyClass ''Empty1'' False) 2) = 3"
  by code_simp

text \<open>
  C2. For the element types of test/unit/test_pair_ebco.cpp, a class without state
  that is not final and a 4-byte integer, and for two classes without state:
  under every layout rule \<^verbatim>\<open>sizeof(my_stl::pair<Empty1, int>)\<close> and
  \<^verbatim>\<open>sizeof(my_stl::pair<Empty1, Empty2>)\<close> are the sizes of the naive two-field
  structs, and not less. Under the usual rule they are 8 and 2, where the layouts
  that elide, \<^verbatim>\<open>pair_impl_base<Empty1, int, true, false>\<close> and
  \<^verbatim>\<open>pair_impl_base<Empty1, Empty2, true, true>\<close>, take 4 bytes and 1 byte.
\<close>

theorem pair_size_not_below_naive:
  "sizeof_pair layout (EmptyClass ''Empty1'' False) (Scalar 4)
     = sizeof_naive layout (EmptyClass ''Empty1'' False) (Scalar 4) \<and>
   \<not> sizeof_pair layout (EmptyClass ''Empty1'' False) (Scalar 4)
       < sizeof_naive layout (EmptyClass ''Empty1'' False) (Scalar 4) \<and>
   sizeof_pair layout (EmptyClass ''Empty1'' False) (EmptyClass ''Empty2'' False)
     = sizeof_naive layout (EmptyClass ''Empty1'' False) (EmptyClass ''Empty2'' False) \<and>
   \<not> sizeof_pair layout (EmptyClass ''Empty1'' False) (EmptyClass ''Empty2'' False)
       < sizeof_naive layout (EmptyClass ''Empty1'' False) (EmptyClass ''Empty2'' False) \<and>
   sizeof_pair struct_size (EmptyClass ''Empty1'' False) (Scalar 4) = 8 \<and>
   sizeof_pair struct_size (EmptyClass ''Empty1'' False) (EmptyClass ''Empty2'' False) = 2 \<and>
   pair_impl_instance (EmptyClass ''Empty1'' False) (Scalar 4) = Inr FirstElided \<and>
   sizeof_pair_impl_base struct_size FirstElided (EmptyClass ''Empty1'' False) (Scalar 4) = 4 \<and>
   pair_impl_instance (EmptyClass ''Empty1'' False) (EmptyClass ''Empty2'' False) = Inr BothElided \<and>
   sizeof_pair_impl_base struct_size BothElided
     (EmptyClass ''Empty1'' False) (EmptyClass ''Empty2'' False) = 1"
  by (simp add: sizeof_pair_def sizeof_naive_def sizeof_pair_impl_base_def pair_members_def
      struct_size_empty_int struct_size_two_empty struct_size_first_elided
      struct_size_both_elided pair_impl_primary_def is_empty_and_non_final_def)

end
